theory Spec2Isabelle
  imports Main "HOL-Library.Word"
begin

unbundle bit_operations_syntax

section \<open>The 6502 core of \<^verbatim>\<open>include/cpu6502.h\<close>\<close>

text \<open>
  The header declares two enumerations, the CPU structure, two 256-entry tables indexed by
  the opcode byte, and two functions: \<^verbatim>\<open>cpu6502_reset\<close> and \<^verbatim>\<open>cpu6502_step\<close>.
  Everything below follows the header top to bottom. The header holds no other code: no
  instruction is decoded or executed, no operand address is computed, and no table of
  cycle counts is declared.
\<close>

subsection \<open>Constants\<close>

definition RAM_SIZE :: nat where
  "RAM_SIZE = 2 * 1024 * 1024" \<comment> \<open>Size of RAM, in bytes\<close>

definition PAGE_SIZE :: nat where
  "PAGE_SIZE = 256" \<comment> \<open>Size of a page, in bytes\<close>

definition NMI_VECTOR :: nat where
  "NMI_VECTOR = 0xfffa" \<comment> \<open>NMI Interrupt vector\<close>

definition IRQ_VECTOR :: nat where
  "IRQ_VECTOR = 0xfffe" \<comment> \<open>IRQ Interrupt vector\<close>

definition RESET_VECTOR :: nat where
  "RESET_VECTOR = 0xfffc" \<comment> \<open>RESET Interrupt vector\<close>

subsection \<open>Enumerations\<close>

text \<open>
  A C enumeration constant is an \<^verbatim>\<open>int\<close> with the value its declaration gives it, and two
  enumerators of one enumeration may carry the same value. The enumerators are therefore
  integer constants here, each with the value written in the header; a datatype would make
  them pairwise distinct whatever the header says.
\<close>

type_synonym addressing_modes_6502 = int
type_synonym instr_types_6502 = int

subsubsection \<open>Addressing modes\<close>

definition ADDR_MODE_ACCUMULATOR :: int where
  "ADDR_MODE_ACCUMULATOR = 0" \<comment> \<open>The value in a\<close>

definition ADDR_MODE_ABSOLUTE :: int where
  "ADDR_MODE_ABSOLUTE = 1" \<comment> \<open>The value at immediate address\<close>

definition ADDR_MODE_ABSOLUTE_X :: int where
  "ADDR_MODE_ABSOLUTE_X = 3" \<comment> \<open>the value at immediate address + x\<close>

definition ADDR_MODE_ABSOLUTE_Y :: int where
  "ADDR_MODE_ABSOLUTE_Y = 4" \<comment> \<open>the value at immediate address + y\<close>

definition ADDR_MODE_IMMEDIATE :: int where
  "ADDR_MODE_IMMEDIATE = 5" \<comment> \<open>The immediate value\<close>

definition ADDR_MODE_IMPLIED :: int where
  "ADDR_MODE_IMPLIED = 6" \<comment> \<open>No value needed or value implied by instruction\<close>

definition ADDR_MODE_INDIRECT :: int where
  "ADDR_MODE_INDIRECT = 7" \<comment> \<open>The value at address at immediate address\<close>

definition ADDR_MODE_INDIRECT_X :: int where
  "ADDR_MODE_INDIRECT_X = 8" \<comment> \<open>The value at address at (immediate address + x)\<close>

definition ADDR_MODE_INDIRECT_Y :: int where
  "ADDR_MODE_INDIRECT_Y = 9" \<comment> \<open>(The value at address at immediate address) + y\<close>

definition ADDR_MODE_RELATIVE :: int where
  "ADDR_MODE_RELATIVE = 10" \<comment> \<open>The value is the program counter + immediate\<close>

definition ADDR_MODE_ZERO_PAGE :: int where
  "ADDR_MODE_ZERO_PAGE = 11" \<comment> \<open>The value at immediate address in zero page\<close>

definition ADDR_MODE_ZERO_PAGE_X :: int where
  "ADDR_MODE_ZERO_PAGE_X = 12" \<comment> \<open>The value at immediate address in zero page + x\<close>

definition ADDR_MODE_ZERO_PAGE_Y :: int where
  "ADDR_MODE_ZERO_PAGE_Y = 13" \<comment> \<open>The value at immediate address in zero page + y\<close>

definition ADDR_MODE_NONE :: int where
  "ADDR_MODE_NONE = 14" \<comment> \<open>Empty space in instruction set\<close>

subsubsection \<open>Instruction types\<close>

definition INSTR_TYPE_LDA :: int where
  "INSTR_TYPE_LDA = 0" \<comment> \<open>Load accumulator\<close>

definition INSTR_TYPE_LDX :: int where
  "INSTR_TYPE_LDX = 1" \<comment> \<open>Load X register\<close>

definition INSTR_TYPE_LDY :: int where
  "INSTR_TYPE_LDY = 2" \<comment> \<open>Load Y register\<close>

definition INSTR_TYPE_STA :: int where
  "INSTR_TYPE_STA = 3" \<comment> \<open>Store accumulator\<close>

definition INSTR_TYPE_STX :: int where
  "INSTR_TYPE_STX = 4" \<comment> \<open>Store X register\<close>

definition INSTR_TYPE_STY :: int where
  "INSTR_TYPE_STY = 5" \<comment> \<open>Store Y register\<close>

definition INSTR_TYPE_TAX :: int where
  "INSTR_TYPE_TAX = 6" \<comment> \<open>Transfer accumulator to X\<close>

definition INSTR_TYPE_TAY :: int where
  "INSTR_TYPE_TAY = 7" \<comment> \<open>Transfer accumulator to Y\<close>

definition INSTR_TYPE_TXA :: int where
  "INSTR_TYPE_TXA = 8" \<comment> \<open>Transfer X to accumulator\<close>

definition INSTR_TYPE_TYA :: int where
  "INSTR_TYPE_TYA = 9" \<comment> \<open>Transfer Y to accumulator\<close>

definition INSTR_TYPE_TSX :: int where
  "INSTR_TYPE_TSX = 10" \<comment> \<open>Transfer stack pointer to X\<close>

definition INSTR_TYPE_TXS :: int where
  "INSTR_TYPE_TXS = 12" \<comment> \<open>Transfer X to stack pointer\<close>

definition INSTR_TYPE_PHA :: int where
  "INSTR_TYPE_PHA = 13" \<comment> \<open>Push accumulator\<close>

definition INSTR_TYPE_PHP :: int where
  "INSTR_TYPE_PHP = 14" \<comment> \<open>Push status register\<close>

definition INSTR_TYPE_PLA :: int where
  "INSTR_TYPE_PLA = 15" \<comment> \<open>Pop accumulator\<close>

definition INSTR_TYPE_PLP :: int where
  "INSTR_TYPE_PLP = 16" \<comment> \<open>Pop status register\<close>

definition INSTR_TYPE_AND :: int where
  "INSTR_TYPE_AND = 17" \<comment> \<open>Logical AND\<close>

definition INSTR_TYPE_EOR :: int where
  "INSTR_TYPE_EOR = 18" \<comment> \<open>Exclusive OR\<close>

definition INSTR_TYPE_ORA :: int where
  "INSTR_TYPE_ORA = 19" \<comment> \<open>Logical OR\<close>

definition INSTR_TYPE_BIT :: int where
  "INSTR_TYPE_BIT = 20" \<comment> \<open>Bit test\<close>

definition INSTR_TYPE_ADC :: int where
  "INSTR_TYPE_ADC = 21" \<comment> \<open>Add with carry\<close>

definition INSTR_TYPE_SBC :: int where
  "INSTR_TYPE_SBC = 22" \<comment> \<open>Subtract with carry\<close>

definition INSTR_TYPE_CMP :: int where
  "INSTR_TYPE_CMP = 23" \<comment> \<open>Compare to accumulator\<close>

definition INSTR_TYPE_CPX :: int where
  "INSTR_TYPE_CPX = 24" \<comment> \<open>Compare to X register\<close>

definition INSTR_TYPE_CPY :: int where
  "INSTR_TYPE_CPY = 25" \<comment> \<open>Compare to Y register\<close>

definition INSTR_TYPE_INC :: int where
  "INSTR_TYPE_INC = 26" \<comment> \<open>Increment memory\<close>

definition INSTR_TYPE_INX :: int where
  "INSTR_TYPE_INX = 27" \<comment> \<open>Increment X register\<close>

definition INSTR_TYPE_INY :: int where
  "INSTR_TYPE_INY = 28" \<comment> \<open>Increment Y register\<close>

definition INSTR_TYPE_DEC :: int where
  "INSTR_TYPE_DEC = 29" \<comment> \<open>Decrement memory\<close>

definition INSTR_TYPE_DEX :: int where
  "INSTR_TYPE_DEX = 30" \<comment> \<open>Decrement X register\<close>

definition INSTR_TYPE_DEY :: int where
  "INSTR_TYPE_DEY = 31" \<comment> \<open>Decrement Y register\<close>

definition INSTR_TYPE_ASL :: int where
  "INSTR_TYPE_ASL = 32" \<comment> \<open>Arithmetic shift left\<close>

definition INSTR_TYPE_LSR :: int where
  "INSTR_TYPE_LSR = 33" \<comment> \<open>Logical shift right\<close>

definition INSTR_TYPE_ROL :: int where
  "INSTR_TYPE_ROL = 34" \<comment> \<open>Rotate left\<close>

definition INSTR_TYPE_ROR :: int where
  "INSTR_TYPE_ROR = 35" \<comment> \<open>Rotate right\<close>

definition INSTR_TYPE_JMP :: int where
  "INSTR_TYPE_JMP = 36" \<comment> \<open>Jump to address\<close>

definition INSTR_TYPE_JSR :: int where
  "INSTR_TYPE_JSR = 37" \<comment> \<open>Jump to subroutine\<close>

definition INSTR_TYPE_RTS :: int where
  "INSTR_TYPE_RTS = 38" \<comment> \<open>Return from subroutine\<close>

definition INSTR_TYPE_BCC :: int where
  "INSTR_TYPE_BCC = 39" \<comment> \<open>Branch on carry clear\<close>

definition INSTR_TYPE_BCS :: int where
  "INSTR_TYPE_BCS = 40" \<comment> \<open>Branch on carry set\<close>

definition INSTR_TYPE_BEQ :: int where
  "INSTR_TYPE_BEQ = 41" \<comment> \<open>Branch on zero set\<close>

definition INSTR_TYPE_BMI :: int where
  "INSTR_TYPE_BMI = 42" \<comment> \<open>Branch on result minus\<close>

definition INSTR_TYPE_BNE :: int where
  "INSTR_TYPE_BNE = 43" \<comment> \<open>Branch on zero clear\<close>

definition INSTR_TYPE_BPL :: int where
  "INSTR_TYPE_BPL = 44" \<comment> \<open>Branch on result positive\<close>

definition INSTR_TYPE_BVC :: int where
  "INSTR_TYPE_BVC = 45" \<comment> \<open>Branch on overflow clear\<close>

definition INSTR_TYPE_BVS :: int where
  "INSTR_TYPE_BVS = 46" \<comment> \<open>Branch on overflow set\<close>

definition INSTR_TYPE_CLC :: int where
  "INSTR_TYPE_CLC = 47" \<comment> \<open>Clear carry flag\<close>

definition INSTR_TYPE_CLD :: int where
  "INSTR_TYPE_CLD = 48" \<comment> \<open>Clear decimal flag\<close>

definition INSTR_TYPE_CLI :: int where
  "INSTR_TYPE_CLI = 49" \<comment> \<open>Clear interrupt disable flag\<close>

definition INSTR_TYPE_CLV :: int where
  "INSTR_TYPE_CLV = 50" \<comment> \<open>Clear overflow flag\<close>

definition INSTR_TYPE_SEC :: int where
  "INSTR_TYPE_SEC = 51" \<comment> \<open>Set carry flag\<close>

definition INSTR_TYPE_SED :: int where
  "INSTR_TYPE_SED = 52" \<comment> \<open>Set decimal flag\<close>

definition INSTR_TYPE_SEI :: int where
  "INSTR_TYPE_SEI = 53" \<comment> \<open>Set interrupt disable flag\<close>

definition INSTR_TYPE_BRK :: int where
  "INSTR_TYPE_BRK = 54" \<comment> \<open>Force interrupt\<close>

definition INSTR_TYPE_NOP :: int where
  "INSTR_TYPE_NOP = 55" \<comment> \<open>No operation\<close>

definition INSTR_TYPE_RTI :: int where
  "INSTR_TYPE_RTI = 56" \<comment> \<open>Return from interrupt\<close>

definition INSTR_TYPE_NONE :: int where
  "INSTR_TYPE_NONE = 47" \<comment> \<open>Empty space in instruction set\<close>

subsection \<open>The CPU structure\<close>

text \<open>
  \<^verbatim>\<open>struct cpu6502\<close>. The registers \<^verbatim>\<open>a\<close>, \<^verbatim>\<open>x\<close>, \<^verbatim>\<open>y\<close> are the fields \<open>reg_a\<close>, \<open>reg_x\<close>,
  \<open>reg_y\<close>, and the one-bit members \<^verbatim>\<open>c\<close>, \<^verbatim>\<open>z\<close>, \<^verbatim>\<open>i\<close>, \<^verbatim>\<open>d\<close>, \<^verbatim>\<open>b\<close>, \<^verbatim>\<open>u\<close>, \<^verbatim>\<open>v\<close>, \<^verbatim>\<open>n\<close> of the
  bit-field structure \<^verbatim>\<open>flags\<close> are \<open>flag_c\<close> ... \<open>flag_n\<close>: a record field is a constant, and
  one-letter constants would capture the variables of every later statement. Each flag is a
  \<^verbatim>\<open>uint8_t\<close> bit-field of width 1, a \<^typ>\<open>1 word\<close>.

  The header overlays the byte \<^verbatim>\<open>status\<close> on the bit-fields in a union. Neither function of
  the header reads or writes \<^verbatim>\<open>status\<close>, so the flags are modelled as the eight bit-fields
  and the overlay, whose bit order the C implementation chooses, is left out.

  \<^verbatim>\<open>ram\<close> is an array of \<^verbatim>\<open>RAM_SIZE\<close> bytes: a function from the index to the byte, read in
  the header only at indices below \<^verbatim>\<open>RAM_SIZE\<close> (lemma \<open>reset_vector_in_ram\<close>).
  \<^verbatim>\<open>size_t\<close> is taken as 64 bits wide, as on the LP64 targets.
\<close>

record flags_6502 =
  flag_c :: "1 word" \<comment> \<open>Carry flag\<close>
  flag_z :: "1 word" \<comment> \<open>Zero flag\<close>
  flag_i :: "1 word" \<comment> \<open>Interrupt disable flag\<close>
  flag_d :: "1 word" \<comment> \<open>Decimal flag\<close>
  flag_b :: "1 word" \<comment> \<open>Break flag\<close>
  flag_u :: "1 word" \<comment> \<open>Unused flag\<close>
  flag_v :: "1 word" \<comment> \<open>Overflow flag\<close>
  flag_n :: "1 word" \<comment> \<open>Negative flag\<close>

record cpu6502 =
  pc :: "16 word" \<comment> \<open>Program counter\<close>
  sp :: "8 word" \<comment> \<open>Stack pointer = 0x0100 | sp\<close>
  reg_a :: "8 word" \<comment> \<open>Accumulator\<close>
  reg_x :: "8 word" \<comment> \<open>Index register X\<close>
  reg_y :: "8 word" \<comment> \<open>Index register Y\<close>
  flags :: flags_6502 \<comment> \<open>Status register flags\<close>
  ram :: "nat \<Rightarrow> 8 word" \<comment> \<open>RAM\<close>
  ram_size :: "64 word" \<comment> \<open>Size of RAM, in bytes\<close>
  cycles_behind :: "64 word" \<comment> \<open>Number of cycles the CPU is behind\<close>
  instruction_mode :: addressing_modes_6502 \<comment> \<open>The current instruction mode\<close>
  data :: "8 word" \<comment> \<open>The current data\<close>

subsection \<open>The opcode tables\<close>

text \<open>
  Both tables are arrays of 256 entries whose initialisers designate every index from
  \<^verbatim>\<open>0x00\<close> to \<^verbatim>\<open>0xff\<close> once, in increasing order; entry \<open>k\<close> of each list is the value
  designated for index \<open>k\<close>.
\<close>

definition instruction_modes_6502 :: "int list" where
  "instruction_modes_6502 = [
    ADDR_MODE_IMPLIED, ADDR_MODE_INDIRECT_X, ADDR_MODE_NONE, ADDR_MODE_NONE,
    ADDR_MODE_NONE, ADDR_MODE_ZERO_PAGE, ADDR_MODE_ZERO_PAGE, ADDR_MODE_NONE,
    ADDR_MODE_IMPLIED, ADDR_MODE_IMMEDIATE, ADDR_MODE_ACCUMULATOR, ADDR_MODE_NONE,
    ADDR_MODE_NONE, ADDR_MODE_ABSOLUTE, ADDR_MODE_ABSOLUTE, ADDR_MODE_NONE,
    ADDR_MODE_RELATIVE, ADDR_MODE_INDIRECT_Y, ADDR_MODE_NONE, ADDR_MODE_NONE,
    ADDR_MODE_NONE, ADDR_MODE_ZERO_PAGE_X, ADDR_MODE_ZERO_PAGE_X, ADDR_MODE_NONE,
    ADDR_MODE_IMPLIED, ADDR_MODE_ABSOLUTE_Y, ADDR_MODE_NONE, ADDR_MODE_NONE,
    ADDR_MODE_NONE, ADDR_MODE_ABSOLUTE_X, ADDR_MODE_ABSOLUTE_X, ADDR_MODE_NONE,
    ADDR_MODE_ABSOLUTE, ADDR_MODE_INDIRECT_X, ADDR_MODE_NONE, ADDR_MODE_NONE,
    ADDR_MODE_ZERO_PAGE, ADDR_MODE_ZERO_PAGE, ADDR_MODE_ZERO_PAGE, ADDR_MODE_NONE,
    ADDR_MODE_IMPLIED, ADDR_MODE_IMMEDIATE, ADDR_MODE_ACCUMULATOR, ADDR_MODE_NONE,
    ADDR_MODE_ABSOLUTE, ADDR_MODE_ABSOLUTE, ADDR_MODE_ABSOLUTE, ADDR_MODE_NONE,
    ADDR_MODE_RELATIVE, ADDR_MODE_INDIRECT_Y, ADDR_MODE_NONE, ADDR_MODE_NONE,
    ADDR_MODE_NONE, ADDR_MODE_ZERO_PAGE_X, ADDR_MODE_ZERO_PAGE_X, ADDR_MODE_NONE,
    ADDR_MODE_IMPLIED, ADDR_MODE_ABSOLUTE_Y, ADDR_MODE_NONE, ADDR_MODE_NONE,
    ADDR_MODE_NONE, ADDR_MODE_ABSOLUTE_X, ADDR_MODE_ABSOLUTE_X, ADDR_MODE_NONE,
    ADDR_MODE_IMPLIED, ADDR_MODE_INDIRECT_X, ADDR_MODE_NONE, ADDR_MODE_NONE,
    ADDR_MODE_NONE, ADDR_MODE_ZERO_PAGE, ADDR_MODE_ZERO_PAGE, ADDR_MODE_NONE,
    ADDR_MODE_IMPLIED, ADDR_MODE_IMMEDIATE, ADDR_MODE_ACCUMULATOR, ADDR_MODE_NONE,
    ADDR_MODE_ABSOLUTE, ADDR_MODE_ABSOLUTE, ADDR_MODE_ABSOLUTE, ADDR_MODE_NONE,
    ADDR_MODE_RELATIVE, ADDR_MODE_INDIRECT_Y, ADDR_MODE_NONE, ADDR_MODE_NONE,
    ADDR_MODE_NONE, ADDR_MODE_ZERO_PAGE_X, ADDR_MODE_ZERO_PAGE_X, ADDR_MODE_NONE,
    ADDR_MODE_IMPLIED, ADDR_MODE_ABSOLUTE_Y, ADDR_MODE_NONE, ADDR_MODE_NONE,
    ADDR_MODE_NONE, ADDR_MODE_ABSOLUTE_X, ADDR_MODE_ABSOLUTE_X, ADDR_MODE_NONE,
    ADDR_MODE_IMPLIED, ADDR_MODE_INDIRECT_X, ADDR_MODE_NONE, ADDR_MODE_NONE,
    ADDR_MODE_NONE, ADDR_MODE_ZERO_PAGE, ADDR_MODE_ZERO_PAGE, ADDR_MODE_NONE,
    ADDR_MODE_IMPLIED, ADDR_MODE_IMMEDIATE, ADDR_MODE_ACCUMULATOR, ADDR_MODE_NONE,
    ADDR_MODE_INDIRECT, ADDR_MODE_ABSOLUTE, ADDR_MODE_ABSOLUTE, ADDR_MODE_NONE,
    ADDR_MODE_RELATIVE, ADDR_MODE_INDIRECT_Y, ADDR_MODE_NONE, ADDR_MODE_NONE,
    ADDR_MODE_NONE, ADDR_MODE_ZERO_PAGE_X, ADDR_MODE_ZERO_PAGE_X, ADDR_MODE_NONE,
    ADDR_MODE_IMPLIED, ADDR_MODE_ABSOLUTE_Y, ADDR_MODE_NONE, ADDR_MODE_NONE,
    ADDR_MODE_NONE, ADDR_MODE_ABSOLUTE_X, ADDR_MODE_ABSOLUTE_X, ADDR_MODE_NONE,
    ADDR_MODE_NONE, ADDR_MODE_INDIRECT_X, ADDR_MODE_NONE, ADDR_MODE_NONE,
    ADDR_MODE_ZERO_PAGE, ADDR_MODE_ZERO_PAGE, ADDR_MODE_ZERO_PAGE, ADDR_MODE_NONE,
    ADDR_MODE_IMPLIED, ADDR_MODE_NONE, ADDR_MODE_IMPLIED, ADDR_MODE_NONE,
    ADDR_MODE_ABSOLUTE, ADDR_MODE_ABSOLUTE, ADDR_MODE_ABSOLUTE, ADDR_MODE_NONE,
    ADDR_MODE_RELATIVE, ADDR_MODE_INDIRECT_Y, ADDR_MODE_NONE, ADDR_MODE_NONE,
    ADDR_MODE_ZERO_PAGE_X, ADDR_MODE_ZERO_PAGE_X, ADDR_MODE_ZERO_PAGE_Y, ADDR_MODE_NONE,
    ADDR_MODE_IMPLIED, ADDR_MODE_ABSOLUTE_Y, ADDR_MODE_IMPLIED, ADDR_MODE_NONE,
    ADDR_MODE_NONE, ADDR_MODE_ABSOLUTE_X, ADDR_MODE_NONE, ADDR_MODE_NONE,
    ADDR_MODE_IMMEDIATE, ADDR_MODE_INDIRECT_X, ADDR_MODE_IMMEDIATE, ADDR_MODE_NONE,
    ADDR_MODE_ZERO_PAGE, ADDR_MODE_ZERO_PAGE, ADDR_MODE_ZERO_PAGE, ADDR_MODE_NONE,
    ADDR_MODE_IMPLIED, ADDR_MODE_IMMEDIATE, ADDR_MODE_IMPLIED, ADDR_MODE_NONE,
    ADDR_MODE_ABSOLUTE, ADDR_MODE_ABSOLUTE, ADDR_MODE_ABSOLUTE, ADDR_MODE_NONE,
    ADDR_MODE_RELATIVE, ADDR_MODE_INDIRECT_Y, ADDR_MODE_NONE, ADDR_MODE_NONE,
    ADDR_MODE_ZERO_PAGE_X, ADDR_MODE_ZERO_PAGE_X, ADDR_MODE_ZERO_PAGE_Y, ADDR_MODE_NONE,
    ADDR_MODE_IMPLIED, ADDR_MODE_ABSOLUTE_Y, ADDR_MODE_IMPLIED, ADDR_MODE_NONE,
    ADDR_MODE_ABSOLUTE_X, ADDR_MODE_ABSOLUTE_X, ADDR_MODE_ABSOLUTE_Y, ADDR_MODE_NONE,
    ADDR_MODE_IMMEDIATE, ADDR_MODE_INDIRECT_X, ADDR_MODE_NONE, ADDR_MODE_NONE,
    ADDR_MODE_ZERO_PAGE, ADDR_MODE_ZERO_PAGE, ADDR_MODE_ZERO_PAGE, ADDR_MODE_NONE,
    ADDR_MODE_IMPLIED, ADDR_MODE_IMMEDIATE, ADDR_MODE_IMPLIED, ADDR_MODE_NONE,
    ADDR_MODE_ABSOLUTE, ADDR_MODE_ABSOLUTE, ADDR_MODE_ABSOLUTE, ADDR_MODE_NONE,
    ADDR_MODE_RELATIVE, ADDR_MODE_INDIRECT_Y, ADDR_MODE_NONE, ADDR_MODE_NONE,
    ADDR_MODE_NONE, ADDR_MODE_ZERO_PAGE_X, ADDR_MODE_ZERO_PAGE_Y, ADDR_MODE_NONE,
    ADDR_MODE_IMPLIED, ADDR_MODE_ABSOLUTE_Y, ADDR_MODE_NONE, ADDR_MODE_NONE,
    ADDR_MODE_NONE, ADDR_MODE_ABSOLUTE_X, ADDR_MODE_ABSOLUTE_X, ADDR_MODE_NONE,
    ADDR_MODE_IMMEDIATE, ADDR_MODE_INDIRECT_X, ADDR_MODE_NONE, ADDR_MODE_NONE,
    ADDR_MODE_ZERO_PAGE, ADDR_MODE_ZERO_PAGE, ADDR_MODE_ZERO_PAGE, ADDR_MODE_NONE,
    ADDR_MODE_IMPLIED, ADDR_MODE_IMMEDIATE, ADDR_MODE_IMPLIED, ADDR_MODE_NONE,
    ADDR_MODE_ABSOLUTE, ADDR_MODE_ABSOLUTE, ADDR_MODE_ABSOLUTE, ADDR_MODE_NONE,
    ADDR_MODE_RELATIVE, ADDR_MODE_INDIRECT_Y, ADDR_MODE_NONE, ADDR_MODE_NONE,
    ADDR_MODE_NONE, ADDR_MODE_ZERO_PAGE_X, ADDR_MODE_ZERO_PAGE_X, ADDR_MODE_NONE,
    ADDR_MODE_IMPLIED, ADDR_MODE_ABSOLUTE_Y, ADDR_MODE_NONE, ADDR_MODE_NONE,
    ADDR_MODE_NONE, ADDR_MODE_ABSOLUTE_X, ADDR_MODE_ABSOLUTE_X, ADDR_MODE_NONE]"

definition instruction_types_6502 :: "int list" where
  "instruction_types_6502 = [
    INSTR_TYPE_BRK, INSTR_TYPE_ORA, INSTR_TYPE_NONE, INSTR_TYPE_NONE,
    INSTR_TYPE_NONE, INSTR_TYPE_ORA, INSTR_TYPE_ASL, INSTR_TYPE_NONE,
    INSTR_TYPE_PHP, INSTR_TYPE_ORA, INSTR_TYPE_ASL, INSTR_TYPE_NONE,
    INSTR_TYPE_NONE, INSTR_TYPE_ORA, INSTR_TYPE_ASL, INSTR_TYPE_NONE,
    INSTR_TYPE_BPL, INSTR_TYPE_ORA, INSTR_TYPE_NONE, INSTR_TYPE_NONE,
    INSTR_TYPE_NONE, INSTR_TYPE_ORA, INSTR_TYPE_ASL, INSTR_TYPE_NONE,
    INSTR_TYPE_CLC, INSTR_TYPE_ORA, INSTR_TYPE_NONE, INSTR_TYPE_NONE,
    INSTR_TYPE_NONE, INSTR_TYPE_ORA, INSTR_TYPE_ASL, INSTR_TYPE_NONE,
    INSTR_TYPE_JSR, INSTR_TYPE_AND, INSTR_TYPE_NONE, INSTR_TYPE_NONE,
    INSTR_TYPE_BIT, INSTR_TYPE_AND, INSTR_TYPE_ROL, INSTR_TYPE_NONE,
    INSTR_TYPE_PLP, INSTR_TYPE_AND, INSTR_TYPE_ROL, INSTR_TYPE_NONE,
    INSTR_TYPE_BIT, INSTR_TYPE_AND, INSTR_TYPE_ROL, INSTR_TYPE_NONE,
    INSTR_TYPE_BMI, INSTR_TYPE_AND, INSTR_TYPE_NONE, INSTR_TYPE_NONE,
    INSTR_TYPE_NONE, INSTR_TYPE_AND, INSTR_TYPE_ROL, INSTR_TYPE_NONE,
    INSTR_TYPE_SEC, INSTR_TYPE_AND, INSTR_TYPE_NONE, INSTR_TYPE_NONE,
    INSTR_TYPE_NONE, INSTR_TYPE_AND, INSTR_TYPE_ROL, INSTR_TYPE_NONE,
    INSTR_TYPE_RTI, INSTR_TYPE_EOR, INSTR_TYPE_NONE, INSTR_TYPE_NONE,
    INSTR_TYPE_NONE, INSTR_TYPE_EOR, INSTR_TYPE_LSR, INSTR_TYPE_NONE,
    INSTR_TYPE_PHA, INSTR_TYPE_EOR, INSTR_TYPE_LSR, INSTR_TYPE_NONE,
    INSTR_TYPE_JMP, INSTR_TYPE_EOR, INSTR_TYPE_LSR, INSTR_TYPE_NONE,
    INSTR_TYPE_BVC, INSTR_TYPE_EOR, INSTR_TYPE_NONE, INSTR_TYPE_NONE,
    INSTR_TYPE_NONE, INSTR_TYPE_EOR, INSTR_TYPE_LSR, INSTR_TYPE_NONE,
    INSTR_TYPE_CLI, INSTR_TYPE_EOR, INSTR_TYPE_NONE, INSTR_TYPE_NONE,
    INSTR_TYPE_NONE, INSTR_TYPE_EOR, INSTR_TYPE_LSR, INSTR_TYPE_NONE,
    INSTR_TYPE_RTS, INSTR_TYPE_ADC, INSTR_TYPE_NONE, INSTR_TYPE_NONE,
    INSTR_TYPE_NONE, INSTR_TYPE_ADC, INSTR_TYPE_ROR, INSTR_TYPE_NONE,
    INSTR_TYPE_PLA, INSTR_TYPE_ADC, INSTR_TYPE_ROR, INSTR_TYPE_NONE,
    INSTR_TYPE_JMP, INSTR_TYPE_ADC, INSTR_TYPE_ROR, INSTR_TYPE_NONE,
    INSTR_TYPE_BVS, INSTR_TYPE_ADC, INSTR_TYPE_NONE, INSTR_TYPE_NONE,
    INSTR_TYPE_NONE, INSTR_TYPE_ADC, INSTR_TYPE_ROR, INSTR_TYPE_NONE,
    INSTR_TYPE_SEI, INSTR_TYPE_ADC, INSTR_TYPE_NONE, INSTR_TYPE_NONE,
    INSTR_TYPE_NONE, INSTR_TYPE_ADC, INSTR_TYPE_ROR, INSTR_TYPE_NONE,
    INSTR_TYPE_NONE, INSTR_TYPE_STA, INSTR_TYPE_NONE, INSTR_TYPE_NONE,
    INSTR_TYPE_STY, INSTR_TYPE_STA, INSTR_TYPE_STX, INSTR_TYPE_NONE,
    INSTR_TYPE_DEY, INSTR_TYPE_NONE, INSTR_TYPE_TXA, INSTR_TYPE_NONE,
    INSTR_TYPE_STY, INSTR_TYPE_STA, INSTR_TYPE_STX, INSTR_TYPE_NONE,
    INSTR_TYPE_BCC, INSTR_TYPE_STA, INSTR_TYPE_NONE, INSTR_TYPE_NONE,
    INSTR_TYPE_STY, INSTR_TYPE_STA, INSTR_TYPE_STX, INSTR_TYPE_NONE,
    INSTR_TYPE_TYA, INSTR_TYPE_STA, INSTR_TYPE_TXS, INSTR_TYPE_NONE,
    INSTR_TYPE_NONE, INSTR_TYPE_STA, INSTR_TYPE_NONE, INSTR_TYPE_NONE,
    INSTR_TYPE_LDY, INSTR_TYPE_LDA, INSTR_TYPE_LDX, INSTR_TYPE_NONE,
    INSTR_TYPE_LDY, INSTR_TYPE_LDA, INSTR_TYPE_LDX, INSTR_TYPE_NONE,
    INSTR_TYPE_TAY, INSTR_TYPE_LDA, INSTR_TYPE_TAX, INSTR_TYPE_NONE,
    INSTR_TYPE_LDY, INSTR_TYPE_LDA, INSTR_TYPE_LDX, INSTR_TYPE_NONE,
    INSTR_TYPE_BCS, INSTR_TYPE_LDA, INSTR_TYPE_NONE, INSTR_TYPE_NONE,
    INSTR_TYPE_LDY, INSTR_TYPE_LDA, INSTR_TYPE_LDX, INSTR_TYPE_NONE,
    INSTR_TYPE_CLV, INSTR_TYPE_LDA, INSTR_TYPE_TSX, INSTR_TYPE_NONE,
    INSTR_TYPE_LDY, INSTR_TYPE_LDA, INSTR_TYPE_LDX, INSTR_TYPE_NONE,
    INSTR_TYPE_CPY, INSTR_TYPE_CMP, INSTR_TYPE_NONE, INSTR_TYPE_NONE,
    INSTR_TYPE_CPY, INSTR_TYPE_CMP, INSTR_TYPE_DEC, INSTR_TYPE_NONE,
    INSTR_TYPE_INY, INSTR_TYPE_CMP, INSTR_TYPE_DEX, INSTR_TYPE_NONE,
    INSTR_TYPE_CPY, INSTR_TYPE_CMP, INSTR_TYPE_DEC, INSTR_TYPE_NONE,
    INSTR_TYPE_BNE, INSTR_TYPE_CMP, INSTR_TYPE_NONE, INSTR_TYPE_NONE,
    INSTR_TYPE_NONE, INSTR_TYPE_CMP, INSTR_TYPE_DEC, INSTR_TYPE_NONE,
    INSTR_TYPE_CLD, INSTR_TYPE_CMP, INSTR_TYPE_NONE, INSTR_TYPE_NONE,
    INSTR_TYPE_NONE, INSTR_TYPE_CMP, INSTR_TYPE_DEC, INSTR_TYPE_NONE,
    INSTR_TYPE_CPX, INSTR_TYPE_SBC, INSTR_TYPE_NONE, INSTR_TYPE_NONE,
    INSTR_TYPE_CPX, INSTR_TYPE_SBC, INSTR_TYPE_INC, INSTR_TYPE_NONE,
    INSTR_TYPE_INX, INSTR_TYPE_SBC, INSTR_TYPE_NOP, INSTR_TYPE_NONE,
    INSTR_TYPE_CPX, INSTR_TYPE_SBC, INSTR_TYPE_INC, INSTR_TYPE_NONE,
    INSTR_TYPE_BEQ, INSTR_TYPE_SBC, INSTR_TYPE_NONE, INSTR_TYPE_NONE,
    INSTR_TYPE_NONE, INSTR_TYPE_SBC, INSTR_TYPE_INC, INSTR_TYPE_NONE,
    INSTR_TYPE_SED, INSTR_TYPE_SBC, INSTR_TYPE_NONE, INSTR_TYPE_NONE,
    INSTR_TYPE_NONE, INSTR_TYPE_SBC, INSTR_TYPE_INC, INSTR_TYPE_NONE]"

subsection \<open>Reset and step\<close>

text \<open>
  \<^verbatim>\<open>cpu6502_reset\<close>, one binding for each assignment of the function, in its order. In the
  assignment to \<^verbatim>\<open>pc\<close> the two bytes are promoted to \<^verbatim>\<open>int\<close>, the second is shifted left by
  eight, the two are combined with bitwise or, and the result is converted to \<^verbatim>\<open>uint16_t\<close>.
\<close>

definition cpu6502_reset :: "cpu6502 \<Rightarrow> cpu6502" where
  "cpu6502_reset cpu0 =
    (let cpu = cpu0\<lparr>cycles_behind := 6\<rparr>;
         cpu = cpu\<lparr>ram_size := of_nat RAM_SIZE\<rparr>;
         cpu = cpu\<lparr>flags := (flags cpu)\<lparr>flag_i := 1\<rparr>\<rparr>;
         cpu = cpu\<lparr>flags := (flags cpu)\<lparr>flag_d := 0\<rparr>\<rparr>;
         cpu = cpu\<lparr>pc := word_of_int
                 (uint (ram cpu RESET_VECTOR) OR push_bit 8 (uint (ram cpu (RESET_VECTOR + 1))))\<rparr>;
         cpu = cpu\<lparr>flags := (flags cpu)\<lparr>flag_z := 1\<rparr>\<rparr>;
         cpu = cpu\<lparr>flags := (flags cpu)\<lparr>flag_n := 0\<rparr>\<rparr>;
         cpu = cpu\<lparr>flags := (flags cpu)\<lparr>flag_v := 0\<rparr>\<rparr>;
         cpu = cpu\<lparr>flags := (flags cpu)\<lparr>flag_c := 0\<rparr>\<rparr>;
         cpu = cpu\<lparr>sp := 0xff\<rparr>;
         cpu = cpu\<lparr>reg_a := 0\<rparr>;
         cpu = cpu\<lparr>reg_x := 0\<rparr>;
         cpu = cpu\<lparr>reg_y := 0\<rparr>
     in cpu)"

text \<open>
  \<^verbatim>\<open>cpu6502_step\<close>: a conditional on \<^verbatim>\<open>cycles_behind > 0\<close> whose body is empty, then the
  decrement of the \<^verbatim>\<open>size_t\<close> counter, which wraps.
\<close>

definition cpu6502_step :: "cpu6502 \<Rightarrow> cpu6502" where
  "cpu6502_step cpu0 =
    (let cpu = (if cycles_behind cpu0 > 0 then cpu0 else cpu0)
     in cpu\<lparr>cycles_behind := cycles_behind cpu - 1\<rparr>)"

text \<open>
  The driver of the core calls reset once and then step once per clock cycle; \<open>steps k\<close> is
  \<open>k\<close> such calls in a row.
\<close>

primrec steps :: "nat \<Rightarrow> cpu6502 \<Rightarrow> cpu6502" where
  "steps 0 cpu = cpu"
| "steps (Suc k) cpu = steps k (cpu6502_step cpu)"

subsection \<open>Two concrete machine states\<close>

text \<open>
  \<open>cpu_zeroed\<close> is a \<^verbatim>\<open>struct cpu6502\<close> of static storage duration before any call: every
  member is zero. \<open>cpu_inx\<close> is the same machine with the program counter at \<^verbatim>\<open>0x8000\<close> and
  the opcode \<^verbatim>\<open>0xe8\<close> stored there.
\<close>

definition cpu_zeroed :: cpu6502 where
  "cpu_zeroed =
    \<lparr>pc = 0, sp = 0, reg_a = 0, reg_x = 0, reg_y = 0,
     flags = \<lparr>flag_c = 0, flag_z = 0, flag_i = 0, flag_d = 0,
              flag_b = 0, flag_u = 0, flag_v = 0, flag_n = 0\<rparr>,
     ram = (\<lambda>_. 0), ram_size = 0, cycles_behind = 0,
     instruction_mode = 0, data = 0\<rparr>"

definition cpu_inx :: cpu6502 where
  "cpu_inx = cpu_zeroed\<lparr>pc := 0x8000, ram := (\<lambda>_. 0)(0x8000 := 0xe8)\<rparr>"

section \<open>Properties\<close>

subsection \<open>Supporting lemmas\<close>

lemma length_instruction_modes_6502: "length instruction_modes_6502 = 256"
  by (simp add: instruction_modes_6502_def)

lemma length_instruction_types_6502: "length instruction_types_6502 = 256"
  by (simp add: instruction_types_6502_def)

lemma reset_vector_in_ram: "RESET_VECTOR < RAM_SIZE \<and> RESET_VECTOR + 1 < RAM_SIZE"
  by (simp add: RESET_VECTOR_def RAM_SIZE_def)

lemma ram_holds_64_KiB: "2 ^ 16 \<le> RAM_SIZE"
  by (simp add: RAM_SIZE_def)

lemma or_shifted_byte:
  "uint (lo :: 8 word) OR push_bit 8 (uint (hi :: 8 word)) = uint lo + 256 * uint hi"
proof -
  have "uint lo + push_bit 8 (uint hi) = uint lo OR push_bit 8 (uint hi)"
    by (rule disjunctive_add) (auto simp add: bit_uint_iff bit_push_bit_iff)
  then show ?thesis
    by (simp add: push_bit_eq_mult)
qed

lemma two_bytes_as_nat:
  "uint (lo :: 8 word) + 256 * uint (hi :: 8 word) = int (unat lo + 256 * unat hi)"
  by simp

lemma two_bytes_bound: "unat (lo :: 8 word) + 256 * unat (hi :: 8 word) < 65536"
  using unsigned_less [of lo, where ?'a = nat] unsigned_less [of hi, where ?'a = nat]
  by simp

lemma unat_word16_of_small: "m < 65536 \<Longrightarrow> unat (word_of_int (int m) :: 16 word) = m"
  by (simp add: unat_of_nat)

lemma unat_little_endian:
  "unat (word_of_int (uint (lo :: 8 word) OR push_bit 8 (uint (hi :: 8 word))) :: 16 word)
     = unat lo + 256 * unat hi"
  by (simp only: or_shifted_byte two_bytes_as_nat unat_word16_of_small [OF two_bytes_bound])

lemma reset_fields:
  "pc (cpu6502_reset cpu) =
     word_of_int (uint (ram cpu RESET_VECTOR) OR push_bit 8 (uint (ram cpu (RESET_VECTOR + 1))))"
  "sp (cpu6502_reset cpu) = 0xff"
  "reg_a (cpu6502_reset cpu) = 0"
  "reg_x (cpu6502_reset cpu) = 0"
  "reg_y (cpu6502_reset cpu) = 0"
  "flags (cpu6502_reset cpu) =
     (flags cpu)\<lparr>flag_c := 0, flag_z := 1, flag_i := 1, flag_d := 0, flag_v := 0, flag_n := 0\<rparr>"
  "ram (cpu6502_reset cpu) = ram cpu"
  "ram_size (cpu6502_reset cpu) = of_nat RAM_SIZE"
  "cycles_behind (cpu6502_reset cpu) = 6"
  "instruction_mode (cpu6502_reset cpu) = instruction_mode cpu"
  "data (cpu6502_reset cpu) = data cpu"
  by (simp_all add: cpu6502_reset_def)

lemma step_decrement: "cpu6502_step cpu = cpu\<lparr>cycles_behind := cycles_behind cpu - 1\<rparr>"
  by (simp add: cpu6502_step_def)

lemma steps_decrement:
  "steps k cpu = cpu\<lparr>cycles_behind := cycles_behind cpu - of_nat k\<rparr>"
proof (induction k arbitrary: cpu)
  case 0
  show ?case by simp
next
  case (Suc k)
  show ?case by (simp add: Suc.IH step_decrement)
qed

lemma pred_mod_nat:
  fixes k m :: nat
  assumes "0 < k" and "k < m"
  shows "(k + m - 1) mod m = k - 1"
proof -
  have e: "k + m - 1 = (k - 1) + m"
    using assms by simp
  have "(k + m - 1) mod m = ((k - 1) + m) mod m"
    by (simp only: e)
  also have "\<dots> = (k - 1) mod m"
    by (simp only: mod_add_self2)
  also have "\<dots> = k - 1"
    using assms by (intro mod_less) arith
  finally show ?thesis .
qed

lemma unat_pred_word64:
  "unat ((w :: 64 word) - 1) = (unat w + 2 ^ 64 - 1) mod 2 ^ 64"
proof (cases "w = 0")
  case True
  then show ?thesis
    by (simp add: unsigned_minus_1_eq_mask mask_eq_exp_minus_1)
next
  case False
  then have pos: "0 < unat w"
    by (simp add: unat_gt_0)
  have lt: "unat w < 2 ^ 64"
    using unsigned_less [of w, where ?'a = nat] by simp
  have "unat (w - 1) = unat w - 1"
    using False by (simp add: unat_minus_one)
  also have "\<dots> = (unat w + 2 ^ 64 - 1) mod 2 ^ 64"
    by (simp only: pred_mod_nat [OF pos lt])
  finally show ?thesis .
qed

subsection \<open>The step operation\<close>

text \<open>
  Claim C1, as the code has it. For every CPU state, a call to the step operation changes
  nothing but the cycle-debt counter, and while debt is buffered it consumes one cycle of
  it: the counter afterwards is lower by exactly one. With the debt exhausted the call
  still fetches no opcode, resolves no operand, executes no instruction and checks no
  interrupt: the program counter, the registers, the flags and the memory stay as they
  were.
\<close>

theorem step_only_consumes_debt:
  "cpu6502_step cpu = cpu\<lparr>cycles_behind := cycles_behind (cpu6502_step cpu)\<rparr> \<and>
   (0 < cycles_behind cpu \<longrightarrow>
      unat (cycles_behind (cpu6502_step cpu)) + 1 = unat (cycles_behind cpu))"
proof (intro conjI impI)
  show "cpu6502_step cpu = cpu\<lparr>cycles_behind := cycles_behind (cpu6502_step cpu)\<rparr>"
    by (simp add: step_decrement)
next
  assume "0 < cycles_behind cpu"
  then have nz: "cycles_behind cpu \<noteq> 0"
    by (simp add: word_greater_zero_iff)
  then have "0 < unat (cycles_behind cpu)"
    by (simp add: unat_gt_0)
  moreover have "unat (cycles_behind cpu - 1) = unat (cycles_behind cpu) - 1"
    using nz by (simp add: unat_minus_one)
  ultimately show "unat (cycles_behind (cpu6502_step cpu)) + 1 = unat (cycles_behind cpu)"
    by (simp add: step_decrement)
qed

text \<open>
  The state right after a reset of \<open>cpu_inx\<close> owes six cycles; one step leaves five and
  touches nothing else.
\<close>

theorem step_only_consumes_debt_witness:
  "0 < cycles_behind (cpu6502_reset cpu_inx) \<and>
   unat (cycles_behind (cpu6502_step (cpu6502_reset cpu_inx))) = 5 \<and>
   pc (cpu6502_step (cpu6502_reset cpu_inx)) = 0"
proof -
  have debt: "cycles_behind (cpu6502_reset cpu_inx) = 6"
    by (simp add: reset_fields)
  have vec: "pc (cpu6502_reset cpu_inx) = 0"
    by (simp add: reset_fields cpu_inx_def cpu_zeroed_def RESET_VECTOR_def)
  have pos: "0 < cycles_behind (cpu6502_reset cpu_inx)"
    by (simp add: debt)
  from step_only_consumes_debt [of "cpu6502_reset cpu_inx"] pos
  have frame: "cpu6502_step (cpu6502_reset cpu_inx) =
      (cpu6502_reset cpu_inx)\<lparr>cycles_behind :=
         cycles_behind (cpu6502_step (cpu6502_reset cpu_inx))\<rparr>"
    and dec: "unat (cycles_behind (cpu6502_step (cpu6502_reset cpu_inx))) + 1 =
      unat (cycles_behind (cpu6502_reset cpu_inx))"
    by blast+
  have "pc (cpu6502_step (cpu6502_reset cpu_inx)) = pc (cpu6502_reset cpu_inx)"
    by (subst frame) simp
  moreover have "unat (cycles_behind (cpu6502_step (cpu6502_reset cpu_inx))) = 5"
    using dec by (simp add: debt)
  ultimately show ?thesis
    using pos vec by simp
qed

text \<open>
  Claim C1 as the specification states it fails. In \<open>cpu_inx\<close> the debt is exhausted and the
  byte at the program counter is the opcode of INX, an assigned instruction type with
  implied addressing. A step neither advances the program counter nor increments X, and
  the counter is not re-armed with a cycle cost: it wraps to \<open>2^64 - 1\<close>.
\<close>

theorem step_exhausted_debt_executes_nothing:
  "cycles_behind cpu_inx = 0 \<and>
   instruction_types_6502 ! unat (ram cpu_inx (unat (pc cpu_inx))) = INSTR_TYPE_INX \<and>
   INSTR_TYPE_INX \<noteq> INSTR_TYPE_NONE \<and>
   instruction_modes_6502 ! unat (ram cpu_inx (unat (pc cpu_inx))) = ADDR_MODE_IMPLIED \<and>
   pc (cpu6502_step cpu_inx) = pc cpu_inx \<and>
   reg_x (cpu6502_step cpu_inx) = reg_x cpu_inx \<and>
   flags (cpu6502_step cpu_inx) = flags cpu_inx \<and>
   ram (cpu6502_step cpu_inx) = ram cpu_inx \<and>
   cycles_behind (cpu6502_step cpu_inx) = 0xFFFFFFFFFFFFFFFF"
proof -
  have op: "unat (ram cpu_inx (unat (pc cpu_inx))) = 232"
    by (simp add: cpu_inx_def cpu_zeroed_def)
  have "instruction_types_6502 ! 232 = INSTR_TYPE_INX"
    by (simp add: instruction_types_6502_def)
  moreover have "instruction_modes_6502 ! 232 = ADDR_MODE_IMPLIED"
    by (simp add: instruction_modes_6502_def)
  moreover have "INSTR_TYPE_INX \<noteq> INSTR_TYPE_NONE"
    by (simp add: INSTR_TYPE_INX_def INSTR_TYPE_NONE_def)
  moreover have "cycles_behind cpu_inx = 0"
    by (simp add: cpu_inx_def cpu_zeroed_def)
  ultimately show ?thesis
    by (simp add: op step_decrement)
qed

text \<open>
  Claim C9. For every CPU state, a call to \<^verbatim>\<open>cpu6502_step\<close> decrements the cycle-debt
  counter by one modulo \<open>2^64\<close>; from a counter of 0 the call leaves \<open>2^64 - 1\<close>.
\<close>

theorem step_decrements_modulo:
  "unat (cycles_behind (cpu6502_step cpu)) = (unat (cycles_behind cpu) + 2 ^ 64 - 1) mod 2 ^ 64 \<and>
   unat (cycles_behind (cpu6502_step (cpu\<lparr>cycles_behind := 0\<rparr>))) = 2 ^ 64 - 1"
proof
  have "cycles_behind (cpu6502_step cpu) = cycles_behind cpu - 1"
    by (simp add: step_decrement)
  then show "unat (cycles_behind (cpu6502_step cpu)) =
      (unat (cycles_behind cpu) + 2 ^ 64 - 1) mod 2 ^ 64"
    by (simp only: unat_pred_word64)
next
  show "unat (cycles_behind (cpu6502_step (cpu\<lparr>cycles_behind := 0\<rparr>))) = 2 ^ 64 - 1"
    by (simp add: step_decrement unsigned_minus_1_eq_mask mask_eq_exp_minus_1)
qed

text \<open>
  Claim C10. For every CPU state, a call to \<^verbatim>\<open>cpu6502_step\<close> leaves the program counter,
  the stack pointer, the accumulator, the index registers X and Y, all status flags and
  every byte of memory unchanged; of the fields of the structure it modifies the
  cycle-debt counter only.
\<close>

theorem step_frame:
  "pc (cpu6502_step cpu) = pc cpu \<and>
   sp (cpu6502_step cpu) = sp cpu \<and>
   reg_a (cpu6502_step cpu) = reg_a cpu \<and>
   reg_x (cpu6502_step cpu) = reg_x cpu \<and>
   reg_y (cpu6502_step cpu) = reg_y cpu \<and>
   flags (cpu6502_step cpu) = flags cpu \<and>
   ram (cpu6502_step cpu) = ram cpu \<and>
   ram_size (cpu6502_step cpu) = ram_size cpu \<and>
   instruction_mode (cpu6502_step cpu) = instruction_mode cpu \<and>
   data (cpu6502_step cpu) = data cpu \<and>
   cpu6502_step cpu = cpu\<lparr>cycles_behind := cycles_behind (cpu6502_step cpu)\<rparr>"
  by (simp add: step_decrement)

subsection \<open>The reset operation\<close>

text \<open>
  Claim C2. For every initial CPU state and memory contents, after the reset operation
  the program counter is the little-endian 16-bit value stored at the reset vector
  (\<^verbatim>\<open>0xFFFC\<close> the low byte, \<^verbatim>\<open>0xFFFD\<close> the high byte), the interrupt-disable flag is set, the
  decimal flag is clear, the stack pointer is \<^verbatim>\<open>0xFF\<close>, the cycle-debt counter is the
  constant 6 whatever it was before, and the memory is what it was: nothing is pushed onto
  the stack.
\<close>

theorem reset_postcondition:
  "unat (pc (cpu6502_reset cpu)) = unat (ram cpu 0xFFFC) + 256 * unat (ram cpu 0xFFFD) \<and>
   flag_i (flags (cpu6502_reset cpu)) = 1 \<and>
   flag_d (flags (cpu6502_reset cpu)) = 0 \<and>
   sp (cpu6502_reset cpu) = 0xFF \<and>
   cycles_behind (cpu6502_reset cpu) = 6 \<and>
   ram (cpu6502_reset cpu) = ram cpu"
proof -
  have "unat (pc (cpu6502_reset cpu)) =
      unat (ram cpu RESET_VECTOR) + 256 * unat (ram cpu (RESET_VECTOR + 1))"
    by (simp only: reset_fields unat_little_endian)
  then have "unat (pc (cpu6502_reset cpu)) = unat (ram cpu 0xFFFC) + 256 * unat (ram cpu 0xFFFD)"
    by (simp add: RESET_VECTOR_def)
  then show ?thesis
    by (simp add: reset_fields)
qed

text \<open>
  Claim C4, as the code has it. In every state reachable from reset through any sequence
  of step operations, the unused status-flag bit reads as it did before the reset:
  neither reset nor step assigns it.
\<close>

theorem unused_flag_preserved:
  "flag_u (flags (cpu6502_reset cpu)) = flag_u (flags cpu) \<and>
   flag_u (flags (steps k (cpu6502_reset cpu))) = flag_u (flags cpu)"
  by (simp add: steps_decrement reset_fields)

text \<open>
  Claim C4 as the specification states it fails: resetting the zeroed structure and
  stepping three times gives a state whose unused flag bit reads 0, not 1.
\<close>

theorem unused_flag_clear_after_reset:
  "flag_u (flags (steps 3 (cpu6502_reset cpu_zeroed))) \<noteq> 1"
  by (simp add: steps_decrement reset_fields cpu_zeroed_def)

subsection \<open>The opcode tables and the unassigned sentinel\<close>

lemmas addressing_mode_defs =
  ADDR_MODE_ACCUMULATOR_def ADDR_MODE_ABSOLUTE_def ADDR_MODE_ABSOLUTE_X_def
  ADDR_MODE_ABSOLUTE_Y_def ADDR_MODE_IMMEDIATE_def ADDR_MODE_IMPLIED_def
  ADDR_MODE_INDIRECT_def ADDR_MODE_INDIRECT_X_def ADDR_MODE_INDIRECT_Y_def
  ADDR_MODE_RELATIVE_def ADDR_MODE_ZERO_PAGE_def ADDR_MODE_ZERO_PAGE_X_def
  ADDR_MODE_ZERO_PAGE_Y_def ADDR_MODE_NONE_def

lemmas instr_type_defs =
  INSTR_TYPE_LDA_def INSTR_TYPE_LDX_def INSTR_TYPE_LDY_def INSTR_TYPE_STA_def
  INSTR_TYPE_STX_def INSTR_TYPE_STY_def INSTR_TYPE_TAX_def INSTR_TYPE_TAY_def
  INSTR_TYPE_TXA_def INSTR_TYPE_TYA_def INSTR_TYPE_TSX_def INSTR_TYPE_TXS_def
  INSTR_TYPE_PHA_def INSTR_TYPE_PHP_def INSTR_TYPE_PLA_def INSTR_TYPE_PLP_def
  INSTR_TYPE_AND_def INSTR_TYPE_EOR_def INSTR_TYPE_ORA_def INSTR_TYPE_BIT_def
  INSTR_TYPE_ADC_def INSTR_TYPE_SBC_def INSTR_TYPE_CMP_def INSTR_TYPE_CPX_def
  INSTR_TYPE_CPY_def INSTR_TYPE_INC_def INSTR_TYPE_INX_def INSTR_TYPE_INY_def
  INSTR_TYPE_DEC_def INSTR_TYPE_DEX_def INSTR_TYPE_DEY_def INSTR_TYPE_ASL_def
  INSTR_TYPE_LSR_def INSTR_TYPE_ROL_def INSTR_TYPE_ROR_def INSTR_TYPE_JMP_def
  INSTR_TYPE_JSR_def INSTR_TYPE_RTS_def INSTR_TYPE_BCC_def INSTR_TYPE_BCS_def
  INSTR_TYPE_BEQ_def INSTR_TYPE_BMI_def INSTR_TYPE_BNE_def INSTR_TYPE_BPL_def
  INSTR_TYPE_BVC_def INSTR_TYPE_BVS_def INSTR_TYPE_CLC_def INSTR_TYPE_CLD_def
  INSTR_TYPE_CLI_def INSTR_TYPE_CLV_def INSTR_TYPE_SEC_def INSTR_TYPE_SED_def
  INSTR_TYPE_SEI_def INSTR_TYPE_BRK_def INSTR_TYPE_NOP_def INSTR_TYPE_RTI_def
  INSTR_TYPE_NONE_def

text \<open>
  The sentinel of the addressing modes differs from each of the thirteen modes.
\<close>

lemma addressing_sentinel_distinct: "ADDR_MODE_NONE \<notin> set [
    ADDR_MODE_ACCUMULATOR, ADDR_MODE_ABSOLUTE, ADDR_MODE_ABSOLUTE_X, ADDR_MODE_ABSOLUTE_Y,
    ADDR_MODE_IMMEDIATE, ADDR_MODE_IMPLIED, ADDR_MODE_INDIRECT, ADDR_MODE_INDIRECT_X,
    ADDR_MODE_INDIRECT_Y, ADDR_MODE_RELATIVE, ADDR_MODE_ZERO_PAGE, ADDR_MODE_ZERO_PAGE_X,
    ADDR_MODE_ZERO_PAGE_Y]"
  by (simp add: addressing_mode_defs)

text \<open>
  Among the fifty-six instruction types, exactly \<^verbatim>\<open>INSTR_TYPE_CLC\<close> has the value of the
  sentinel of the instruction types.
\<close>

lemma instr_sentinel_equals_clc_only: "[t \<leftarrow> [
    INSTR_TYPE_LDA, INSTR_TYPE_LDX, INSTR_TYPE_LDY, INSTR_TYPE_STA, INSTR_TYPE_STX,
    INSTR_TYPE_STY, INSTR_TYPE_TAX, INSTR_TYPE_TAY, INSTR_TYPE_TXA, INSTR_TYPE_TYA,
    INSTR_TYPE_TSX, INSTR_TYPE_TXS, INSTR_TYPE_PHA, INSTR_TYPE_PHP, INSTR_TYPE_PLA,
    INSTR_TYPE_PLP, INSTR_TYPE_AND, INSTR_TYPE_EOR, INSTR_TYPE_ORA, INSTR_TYPE_BIT,
    INSTR_TYPE_ADC, INSTR_TYPE_SBC, INSTR_TYPE_CMP, INSTR_TYPE_CPX, INSTR_TYPE_CPY,
    INSTR_TYPE_INC, INSTR_TYPE_INX, INSTR_TYPE_INY, INSTR_TYPE_DEC, INSTR_TYPE_DEX,
    INSTR_TYPE_DEY, INSTR_TYPE_ASL, INSTR_TYPE_LSR, INSTR_TYPE_ROL, INSTR_TYPE_ROR,
    INSTR_TYPE_JMP, INSTR_TYPE_JSR, INSTR_TYPE_RTS, INSTR_TYPE_BCC, INSTR_TYPE_BCS,
    INSTR_TYPE_BEQ, INSTR_TYPE_BMI, INSTR_TYPE_BNE, INSTR_TYPE_BPL, INSTR_TYPE_BVC,
    INSTR_TYPE_BVS, INSTR_TYPE_CLC, INSTR_TYPE_CLD, INSTR_TYPE_CLI, INSTR_TYPE_CLV,
    INSTR_TYPE_SEC, INSTR_TYPE_SED, INSTR_TYPE_SEI, INSTR_TYPE_BRK, INSTR_TYPE_NOP,
    INSTR_TYPE_RTI]. t = INSTR_TYPE_NONE] = [INSTR_TYPE_CLC]"
  by (simp add: instr_type_defs)

text \<open>
  The two tables hold their sentinels at the same opcodes, except at \<^verbatim>\<open>0x18\<close>.
\<close>

lemma tables_disagree_on_sentinel_at_clc_only:
  "[k \<leftarrow> [0..<256].
      (instruction_types_6502 ! k = INSTR_TYPE_NONE) \<noteq>
      (instruction_modes_6502 ! k = ADDR_MODE_NONE)]
   = [0x18]"
  by code_simp

text \<open>
  Claim C3 asks that the instruction-type table yield the unassigned sentinel exactly for
  the opcodes with no defined instruction. The code breaks it at opcode \<^verbatim>\<open>0x18\<close>, clear
  carry: the header gives \<^verbatim>\<open>INSTR_TYPE_NONE\<close> the value 47 that \<^verbatim>\<open>INSTR_TYPE_CLC\<close> already
  has, so the entry of \<^verbatim>\<open>0x18\<close> equals the sentinel although the addressing-mode table
  holds a legitimate mode for that opcode. The sentinel of the addressing modes is not
  shared, and for a truly empty slot such as \<^verbatim>\<open>0x02\<close> both tables hold their sentinel.
\<close>

theorem clc_entry_equals_unassigned_sentinel:
  "instruction_types_6502 ! 0x18 = INSTR_TYPE_CLC \<and>
   instruction_types_6502 ! 0x18 = INSTR_TYPE_NONE \<and>
   instruction_modes_6502 ! 0x18 = ADDR_MODE_IMPLIED \<and>
   instruction_modes_6502 ! 0x18 \<noteq> ADDR_MODE_NONE \<and>
   instruction_types_6502 ! 0x02 = INSTR_TYPE_NONE \<and>
   instruction_modes_6502 ! 0x02 = ADDR_MODE_NONE"
proof -
  have "instruction_types_6502 ! 0x18 = INSTR_TYPE_CLC"
    by (simp add: instruction_types_6502_def)
  moreover have "INSTR_TYPE_CLC = INSTR_TYPE_NONE"
    by (simp add: INSTR_TYPE_CLC_def INSTR_TYPE_NONE_def)
  moreover have "instruction_modes_6502 ! 0x18 = ADDR_MODE_IMPLIED"
    by (simp add: instruction_modes_6502_def)
  moreover have "ADDR_MODE_IMPLIED \<noteq> ADDR_MODE_NONE"
    by (simp add: ADDR_MODE_IMPLIED_def ADDR_MODE_NONE_def)
  moreover have "instruction_types_6502 ! 0x02 = INSTR_TYPE_NONE"
    by (simp add: instruction_types_6502_def)
  moreover have "instruction_modes_6502 ! 0x02 = ADDR_MODE_NONE"
    by (simp add: instruction_modes_6502_def)
  ultimately show ?thesis
    by simp
qed

end
